theory Spec2Isabelle
  imports Complex_Main "HOL-Library.Word"
begin

section \<open>JavaScript strings\<close>

text \<open>
  A JavaScript string is a sequence of UTF-16 code units; \<open>s.length\<close> counts code units
  and the regular expressions of the source (none has the \<open>u\<close> flag) work on code
  units. A code unit is written as its number, so that the Chinese literals of the source
  are lists of numbers: for instance the marker of the description section is
  \<open>**\<close>, U+56FE, U+7247, U+63CF, U+8FF0, U+FF1A, \<open>**\<close>.
\<close>

type_synonym jsstring = "nat list"

definition ascii :: "string \<Rightarrow> jsstring" where
  "ascii s = map of_char s"

text \<open>ECMAScript LineTerminator: LF, CR, LS, PS. The dot of a regular expression
  matches every code unit but these.\<close>

definition is_line_terminator :: "nat \<Rightarrow> bool" where
  "is_line_terminator c \<longleftrightarrow> c = 0x0A \<or> c = 0x0D \<or> c = 0x2028 \<or> c = 0x2029"

text \<open>ECMAScript WhiteSpace and LineTerminator: what \<open>\s\<close> matches and what
  \<open>String.prototype.trim\<close> strips.\<close>

definition is_space :: "nat \<Rightarrow> bool" where
  "is_space c \<longleftrightarrow>
     c = 0x09 \<or> c = 0x0B \<or> c = 0x0C \<or> c = 0x20 \<or> c = 0xA0 \<or> c = 0x1680 \<or>
     (0x2000 \<le> c \<and> c \<le> 0x200A) \<or> c = 0x202F \<or> c = 0x205F \<or> c = 0x3000 \<or>
     c = 0xFEFF \<or> is_line_terminator c"

text \<open>\<open>s.trim()\<close>\<close>

definition trim :: "jsstring \<Rightarrow> jsstring" where
  "trim s = rev (dropWhile is_space (rev (dropWhile is_space s)))"

text \<open>\<open>s.startsWith(p)\<close>\<close>

fun starts_with :: "jsstring \<Rightarrow> jsstring \<Rightarrow> bool" where
  "starts_with [] s = True"
| "starts_with (p # ps) [] = False"
| "starts_with (p # ps) (c # cs) = (p = c \<and> starts_with ps cs)"

text \<open>\<open>s.split('\n')\<close>: the pieces between line feeds; the empty string gives one
  empty piece.\<close>

fun split_nl :: "jsstring \<Rightarrow> jsstring list" where
  "split_nl [] = [[]]"
| "split_nl (c # cs) =
     (if c = 0x0A then [] # split_nl cs
      else (case split_nl cs of [] \<Rightarrow> [[c]] | l # ls \<Rightarrow> (c # l) # ls))"

section \<open>The text response parser (DoubaoService.parsePoetryResult)\<close>

definition marker_description :: jsstring where
  "marker_description = [42, 42, 0x56FE, 0x7247, 0x63CF, 0x8FF0, 0xFF1A, 42, 42]"

definition marker_poetry :: jsstring where
  "marker_poetry = [42, 42, 0x8BD7, 0x6B4C, 0xFF1A, 42, 42]"

definition marker_analysis :: jsstring where
  "marker_analysis = [42, 42, 0x5206, 0x6790, 0xFF1A, 42, 42]"

text \<open>The default description and analysis of the parser (two Chinese sentences).\<close>

definition default_description :: jsstring where
  "default_description =
     [0x8FD9, 0x662F, 0x4E00, 0x5F20, 0x7F8E, 0x4E3D, 0x7684, 0x56FE, 0x7247, 0xFF0C, 0x5C55,
      0x73B0, 0x4E86, 0x4E30, 0x5BCC, 0x7684, 0x89C6, 0x89C9, 0x5185, 0x5BB9, 0x3002]"

definition default_analysis :: jsstring where
  "default_analysis =
     [0x56FE, 0x7247, 0x5206, 0x6790, 0xFF1A, 0x8272, 0x5F69, 0x4E30, 0x5BCC, 0xFF0C, 0x6784,
      0x56FE, 0x548C, 0x8C10, 0xFF0C, 0x5177, 0x6709, 0x5F88, 0x5F3A, 0x7684, 0x827A, 0x672F,
      0x611F, 0x67D3, 0x529B, 0x3002]"

text \<open>
  The three section expressions have the shape
  \<open>MARKER\s*([\s\S]*?)(?=STOP1|STOP2|$)\<close> and are used with \<open>String.prototype.match\<close>
  without the \<open>g\<close> flag. Once the marker matches at a position the rest always matches
  (the lazy group can grow to the end of the input, where \<open>$\<close> holds), so the match is
  at the leftmost occurrence of the marker: \<open>after_marker\<close> gives the text behind it,
  \<open>\s*\<close> takes all the white space that follows, and the group is the shortest text
  after which a stop marker or the end of the input follows (\<open>lazy_until\<close>).
\<close>

fun after_marker :: "jsstring \<Rightarrow> jsstring \<Rightarrow> jsstring option" where
  "after_marker m [] = (if m = [] then Some [] else None)"
| "after_marker m (c # cs) =
     (if starts_with m (c # cs) then Some (drop (length m) (c # cs)) else after_marker m cs)"

fun lazy_until :: "jsstring list \<Rightarrow> jsstring \<Rightarrow> jsstring" where
  "lazy_until stops [] = []"
| "lazy_until stops (c # cs) =
     (if list_ex (\<lambda>m. starts_with m (c # cs)) stops then [] else c # lazy_until stops cs)"

definition match_section :: "jsstring \<Rightarrow> jsstring list \<Rightarrow> jsstring \<Rightarrow> jsstring option" where
  "match_section m stops s =
     map_option (\<lambda>r. lazy_until stops (dropWhile is_space r)) (after_marker m s)"

text \<open>\<open>poetry.match(/^(.+?)\n/)\<close>, group 1: one or more code units that are no line
  terminators, at the start of the string and followed by a line feed.
  \<open>poetry.replace(/^.+?\n/, '')\<close> removes that match, when there is one.\<close>

definition title_match :: "jsstring \<Rightarrow> jsstring option" where
  "title_match p =
     (let t = takeWhile (\<lambda>c. \<not> is_line_terminator c) p;
          r = dropWhile (\<lambda>c. \<not> is_line_terminator c) p
      in if t \<noteq> [] \<and> starts_with [0x0A] r then Some t else None)"

definition remove_title :: "jsstring \<Rightarrow> jsstring" where
  "remove_title p =
     (case title_match p of None \<Rightarrow> p | Some t \<Rightarrow> drop (Suc (length t)) p)"

text \<open>The object the parser returns; \<open>title\<close> is \<open>null\<close> or a string.\<close>

record parsed =
  poetry :: "jsstring list"
  imageDescription :: jsstring
  analysis :: jsstring
  title :: "jsstring option"

datatype js_error = ReferenceError | TypeError | Error jsstring

text \<open>JavaScript truthiness of a value that is \<open>null\<close> or a string.\<close>

fun truthy :: "jsstring option \<Rightarrow> bool" where
  "truthy None = False"
| "truthy (Some s) = (s \<noteq> [])"

text \<open>The test \<open>!title || title.length < 2\<close>.\<close>

fun no_title :: "jsstring option \<Rightarrow> bool" where
  "no_title None = True"
| "no_title (Some t) = (t = [] \<or> length t < 2)"

text \<open>\<open>poetry.split('\n')[0]\<close>; the split has at least one piece.\<close>

definition first_line :: "jsstring \<Rightarrow> jsstring" where
  "first_line p = (case split_nl p of [] \<Rightarrow> [] | l # ls \<Rightarrow> l)"

text \<open>\<open>poetry.split('\n').filter(line => line.trim())\<close>\<close>

definition poem_lines :: "jsstring \<Rightarrow> jsstring list" where
  "poem_lines p = filter (\<lambda>line. trim line \<noteq> []) (split_nl p)"

text \<open>
  The body of the \<open>try\<close> block. The early \<open>return\<close> of the title promotion builds an
  object literal that reads \<open>analysis\<close>, a \<open>const\<close> of the same block declared further
  down: the binding is still uninitialised there, so evaluating the literal raises a
  ReferenceError (after \<open>poetry\<close> and \<open>imageDescription\<close>, whose evaluation has no effect).
  The test \<open>firstLine && firstLine.length > 2\<close> is the test of the length alone.
\<close>

definition parse_try :: "jsstring \<Rightarrow> js_error + parsed" where
  "parse_try result =
     (let imageDescription =
            (case match_section marker_description [marker_poetry, marker_analysis] result of
               Some d \<Rightarrow> trim d | None \<Rightarrow> default_description);
          poetry0 =
            (case match_section marker_poetry [marker_analysis] result of
               Some p \<Rightarrow> trim p | None \<Rightarrow> result);
          title = map_option trim (title_match poetry0);
          poetry1 = (if truthy title then trim (remove_title poetry0) else poetry0)
      in if no_title title \<and> length (first_line poetry1) > 2
         then Inl ReferenceError
         else Inr \<lparr> poetry = poem_lines poetry1,
                    imageDescription = imageDescription,
                    analysis =
                      (case match_section marker_analysis [] result of
                         Some a \<Rightarrow> trim a | None \<Rightarrow> default_analysis),
                    title = title \<rparr>)"

text \<open>The \<open>catch\<close> block: the whole input split into its non-blank lines, the two
  defaults and no title.\<close>

definition parse_fallback :: "jsstring \<Rightarrow> parsed" where
  "parse_fallback result =
     \<lparr> poetry = poem_lines result,
       imageDescription = default_description,
       analysis = default_analysis,
       title = None \<rparr>"

text \<open>
  The argument is the raw text of the model, or \<open>None\<close> for \<open>null\<close> or \<open>undefined\<close>.
  On a string nothing in the \<open>catch\<close> block can raise. On \<open>null\<close> the first statement
  of the \<open>try\<close> block (\<open>result.length\<close>) raises a TypeError, and so does
  \<open>result.split\<close> in the \<open>catch\<close> block, which nothing catches.
\<close>

definition parsePoetryResult :: "jsstring option \<Rightarrow> js_error + parsed" where
  "parsePoetryResult result =
     (case result of
        None \<Rightarrow> Inl TypeError
      | Some s \<Rightarrow> (case parse_try s of Inr r \<Rightarrow> Inr r | Inl e \<Rightarrow> Inr (parse_fallback s)))"

text \<open>The synthetic input of the round-trip property: the three markers, each section
  on its own lines.\<close>

definition synthetic :: "jsstring \<Rightarrow> jsstring \<Rightarrow> jsstring \<Rightarrow> jsstring \<Rightarrow> jsstring \<Rightarrow> jsstring" where
  "synthetic D T L1 L2 A =
     marker_description @ D @ [0x0A] @ marker_poetry @ T @ [0x0A] @ L1 @ [0x0A] @ L2 @ [0x0A] @
     marker_analysis @ A"

section \<open>The object storage service (OSSService)\<close>

type_synonym bytes = "8 word list"

text \<open>\<open>`${n}`\<close> for a non-negative integer: its decimal digits.\<close>

function decimal :: "nat \<Rightarrow> jsstring" where
  "decimal n = (if n < 10 then [48 + n] else decimal (n div 10) @ [48 + n mod 10])"
  by pat_completeness auto
termination
  by (relation "measure id") auto

declare decimal.simps [simp del]

text \<open>
  The collaborators of one upload call: \<open>sharp\<close> is the re-encoding (resize inside
  800 x 800, JPEG of quality 85), \<open>None\<close> when sharp rejects the bytes; \<open>now\<close> is
  \<open>Date.now()\<close> and \<open>uuid\<close> is \<open>uuidv4()\<close> at the place where the object key is built;
  \<open>put\<close> and \<open>multipartUpload\<close> are the two operations of the storage client, which
  answer with an error code or with success (\<open>None\<close>); \<open>writeFile\<close> tells whether
  the temporary file of the chunked path can be written.
\<close>

datatype oss_code =
  SignatureDoesNotMatch | NoSuchBucket | AccessDenied | InvalidAccessKeyId |
  ConnectionTimeoutError | RequestTimeoutError | OtherCode

record oss_env =
  sharp :: "bytes \<Rightarrow> bytes option"
  now :: nat
  uuid :: jsstring
  baseUrl :: jsstring
  put :: "jsstring \<Rightarrow> bytes \<Rightarrow> oss_code option"
  writeFile :: bool
  multipartUpload :: "jsstring \<Rightarrow> bytes \<Rightarrow> oss_code option"

text \<open>An object of the bucket: its bytes, the \<open>Content-Type\<close> header the code sent
  with it (the chunked path sends none) and the \<open>uploadMethod\<close> entry of its metadata
  (the single-shot path writes none).\<close>

record stored_object =
  data :: bytes
  content_type :: "jsstring option"
  meta_uploadMethod :: "jsstring option"

type_synonym bucket = "jsstring \<rightharpoonup> stored_object"

text \<open>The \<open>data\<close> object of a successful upload, without \<open>ossUrl\<close> and \<open>etag\<close>, which
  repeat the answer of the storage client.\<close>

record upload_data =
  filename :: jsstring
  originalName :: jsstring
  size_f :: nat
  mimetype :: jsstring
  url :: jsstring
  uploadMethod :: "jsstring option"

text \<open>The errors an upload throws, one for each message of the source: bucket missing,
  access denied, access key invalid, connection timeout, request timeout, and the general
  "upload failed, try again later".\<close>

datatype upload_error =
  BucketMissing | AccessRefused | KeyInvalid | UploadTimeout | RequestTimeout | UploadFailed

text \<open>\<open>`${folder}/${Date.now()}_${uuidv4()}${ext}`\<close> with \<open>ext = '.jpg'\<close>\<close>

definition object_key :: "oss_env \<Rightarrow> jsstring \<Rightarrow> jsstring" where
  "object_key env folder =
     folder @ ascii ''/'' @ decimal (now env) @ ascii ''_'' @ uuid env @ ascii ''.jpg''"

text \<open>
  uploadImage, the single-shot path. The re-encoding has a \<open>try\<close> of its own, whose
  \<open>catch\<close> keeps the original bytes. When \<open>put\<close> fails the outer \<open>catch\<close> runs. On
  the code SignatureDoesNotMatch it tries \<open>this.client.put(filename, processedBuffer)\<close>
  twice, each in a \<open>try\<close> of its own; \<open>filename\<close> and \<open>processedBuffer\<close> are declared
  inside the outer \<open>try\<close> block and are not in scope in its \<open>catch\<close>, so evaluating the
  arguments raises a ReferenceError before the client is called, the inner \<open>catch\<close>
  logs it, and the code goes on to the classification; SignatureDoesNotMatch is none of the
  three classified codes.
\<close>

definition uploadImage ::
  "oss_env \<Rightarrow> bucket \<Rightarrow> bytes \<Rightarrow> jsstring \<Rightarrow> jsstring \<Rightarrow> (upload_error + upload_data) \<times> bucket" where
  "uploadImage env b imageBuffer original_name folder =
     (let processedBuffer = (case sharp env imageBuffer of Some p \<Rightarrow> p | None \<Rightarrow> imageBuffer);
          filename = object_key env folder
      in case put env filename processedBuffer of
           None \<Rightarrow>
             (Inr \<lparr> filename = filename, originalName = original_name,
                    size_f = length processedBuffer, mimetype = ascii ''image/jpeg'',
                    url = baseUrl env @ ascii ''/'' @ filename, uploadMethod = None \<rparr>,
              b(filename \<mapsto> \<lparr> data = processedBuffer, content_type = Some (ascii ''image/jpeg''),
                               meta_uploadMethod = None \<rparr>))
         | Some code \<Rightarrow>
             (Inl (if code = NoSuchBucket then BucketMissing
                   else if code = AccessDenied then AccessRefused
                   else if code = InvalidAccessKeyId then KeyInvalid
                   else UploadFailed),
              b))"

text \<open>
  multipartUploadImage, the chunked path. Here the re-encoding stands directly in the
  outer \<open>try\<close>: when sharp rejects the bytes the outer \<open>catch\<close> runs, and an error of
  sharp or of \<open>fs.writeFile\<close> has none of the three codes it classifies. The processed
  bytes go to a temporary file, which the storage client uploads in parts of 1 MiB.
\<close>

definition multipartUploadImage ::
  "oss_env \<Rightarrow> bucket \<Rightarrow> bytes \<Rightarrow> jsstring \<Rightarrow> jsstring \<Rightarrow> (upload_error + upload_data) \<times> bucket" where
  "multipartUploadImage env b imageBuffer original_name folder =
     (case sharp env imageBuffer of
        None \<Rightarrow> (Inl UploadFailed, b)
      | Some processedBuffer \<Rightarrow>
          (let filename = object_key env folder
           in if \<not> writeFile env then (Inl UploadFailed, b)
              else case multipartUpload env filename processedBuffer of
                     None \<Rightarrow>
                       (Inr \<lparr> filename = filename, originalName = original_name,
                              size_f = length processedBuffer, mimetype = ascii ''image/jpeg'',
                              url = baseUrl env @ ascii ''/'' @ filename,
                              uploadMethod = Some (ascii ''multipart'') \<rparr>,
                        b(filename \<mapsto> \<lparr> data = processedBuffer, content_type = None,
                                         meta_uploadMethod = Some (ascii ''multipart'') \<rparr>))
                   | Some code \<Rightarrow>
                       (Inl (if code = ConnectionTimeoutError then UploadTimeout
                             else if code = RequestTimeoutError then RequestTimeout
                             else if code = NoSuchBucket then BucketMissing
                             else UploadFailed),
                        b)))"

text \<open>The file multer hands to a route: \<open>req.file\<close>.\<close>

record upload_file =
  buffer :: bytes
  originalname :: jsstring
  file_mimetype :: jsstring
  file_size :: nat

text \<open>\<open>const threshold = 5 * 1024 * 1024\<close>, in both routes.\<close>

definition threshold :: nat where
  "threshold = 5 * 1024 * 1024"

datatype upload_response =
  UploadBadRequest
  | UploadOk upload_data
  | UploadServerError

text \<open>POST /api/images/upload: status 400 without a file, the result of the upload with
  status 200, status 500 when the upload throws.\<close>

definition upload_route ::
  "oss_env \<Rightarrow> bucket \<Rightarrow> upload_file option \<Rightarrow> upload_response \<times> bucket" where
  "upload_route env b file =
     (case file of
        None \<Rightarrow> (UploadBadRequest, b)
      | Some f \<Rightarrow>
          (case (if file_size f > threshold
                 then multipartUploadImage env b (buffer f) (originalname f) (ascii ''poetry'')
                 else uploadImage env b (buffer f) (originalname f) (ascii ''poetry'')) of
             (Inr d, b') \<Rightarrow> (UploadOk d, b')
           | (Inl e, b') \<Rightarrow> (UploadServerError, b')))"

section \<open>The persistence model (Poetry)\<close>

text \<open>
  A row of the table \<open>poetry\<close>, with the columns the controllers read or write: the
  owner, the description of the image, the poem, the model and the processing time, the
  feedback and the share information. The image locator, the prompt text, the request
  metadata and the two timestamps are stored as given and read by no operation; they are
  left out. A key of a JSON column that may be absent is an option. A rating is a
  JavaScript number, here a rational; a share count is a JavaScript number that holds a
  natural number.
\<close>

record poem =
  content :: "jsstring list"
  poem_title :: "jsstring option"
  style :: jsstring
  poem_length :: nat

record feedback =
  rating :: "rat option"
  comment :: "jsstring option"
  isLiked :: "bool option"

record share =
  is_public :: "bool option"
  share_count :: "nat option"
  isPublic :: "bool option"
  shareUrl :: "jsstring option"

record row =
  user_id :: "jsstring option"
  description :: jsstring
  row_poetry :: poem
  generation_model :: jsstring
  processingTime :: int
  row_feedback :: feedback
  row_share :: share

type_synonym table = "jsstring \<rightharpoonup> row"

text \<open>
  The database client of one request: which kinds of statement fail, the id the database
  gives to a new row, and what \<open>.single()\<close> answers when no row matches a select:
  an error, or no data and no error.
\<close>

record db_env =
  insert_fails :: bool
  select_fails :: bool
  update_fails :: bool
  delete_fails :: bool
  new_id :: jsstring
  no_row_is_error :: bool

datatype db_error = DbError

text \<open>What the constructor receives: \<open>poetryData\<close>.\<close>

record poetry_data =
  pd_userId :: "jsstring option"
  pd_description :: jsstring
  pd_poetry :: poem
  pd_model :: jsstring
  pd_processingTime :: int

text \<open>Poetry.create: \<open>user_id: poetryData.userId || null\<close>, an empty feedback, the share
  information \<open>{ is_public: false, share_count: 0 }\<close>. The id of a row is its primary
  key: an insert under an id in use fails. The result is the instance built from the row
  the database returns.\<close>

definition create :: "db_env \<Rightarrow> table \<Rightarrow> poetry_data \<Rightarrow> (db_error + jsstring \<times> row) \<times> table" where
  "create env t pd =
     (let r = \<lparr> user_id = (if truthy (pd_userId pd) then pd_userId pd else None),
                 description = pd_description pd,
                 row_poetry = pd_poetry pd,
                 generation_model = pd_model pd,
                 processingTime = pd_processingTime pd,
                 row_feedback = \<lparr> rating = None, comment = None, isLiked = None \<rparr>,
                 row_share = \<lparr> is_public = Some False, share_count = Some 0,
                               isPublic = None, shareUrl = None \<rparr> \<rparr>
      in if insert_fails env \<or> new_id env \<in> dom t then (Inl DbError, t)
         else (Inr (new_id env, r), t(new_id env \<mapsto> r)))"

text \<open>Poetry.findById: \<open>if (error) throw error; return data ? new Poetry(data) : null\<close>\<close>

definition findById :: "db_env \<Rightarrow> table \<Rightarrow> jsstring \<Rightarrow> db_error + (jsstring \<times> row) option" where
  "findById env t i =
     (if select_fails env then Inl DbError
      else case t i of
             Some r \<Rightarrow> Inr (Some (i, r))
           | None \<Rightarrow> if no_row_is_error env then Inl DbError else Inr None)"

text \<open>save: the update writes every column of the instance to the row of its id and the
  instance becomes the row the database returns (\<open>.single()\<close>: an error without one).\<close>

definition save :: "db_env \<Rightarrow> table \<Rightarrow> jsstring \<times> row \<Rightarrow> (db_error + jsstring \<times> row) \<times> table" where
  "save env t p =
     (case p of (i, r) \<Rightarrow>
        if update_fails env \<or> i \<notin> dom t then (Inl DbError, t)
        else (Inr (i, r), t(i \<mapsto> r)))"

text \<open>\<open>this.share?.share_count || 0\<close>\<close>

definition count_or_0 :: "row \<Rightarrow> nat" where
  "count_or_0 r = (case share_count (row_share r) of None \<Rightarrow> 0 | Some n \<Rightarrow> n)"

text \<open>
  \<open>x + 1\<close> for a count \<open>x\<close>. JavaScript numbers are IEEE doubles. They hold every
  natural number up to \<open>2^53\<close>, so below \<open>2^53\<close> the sum is exact. From \<open>2^53\<close> to
  \<open>2^54\<close> they hold the even numbers only: \<open>x + 1\<close> lies halfway between \<open>x\<close> and
  \<open>x + 2\<close> and is rounded to the one whose significand is even. From \<open>2^54\<close> on the
  doubles are at least 4 apart and the sum is rounded back to \<open>x\<close>.
\<close>

definition js_add_one :: "nat \<Rightarrow> nat" where
  "js_add_one x =
     (if x < 2 ^ 53 then x + 1
      else if x < 2 ^ 54 \<and> (x div 2) mod 2 = 1 then x + 2
      else x)"

text \<open>
  incrementShareCount: the update names the key \<open>share->share_count\<close> and gives it the
  count of the instance plus one. The code relies on the database to take this for the key
  \<open>share_count\<close> inside the column \<open>share\<close> and to change no other column but
  \<open>updated_at\<close>; a database that rejects the statement is the case \<open>update_fails\<close>.
  The instance becomes the row the database returns.
\<close>

definition incrementShareCount ::
  "db_env \<Rightarrow> table \<Rightarrow> jsstring \<times> row \<Rightarrow> (db_error + jsstring \<times> row) \<times> table" where
  "incrementShareCount env t p =
     (case p of (i, r) \<Rightarrow>
        (case t i of
           None \<Rightarrow> (Inl DbError, t)
         | Some stored \<Rightarrow>
             if update_fails env then (Inl DbError, t)
             else (let r' = stored\<lparr> row_share :=
                              (row_share stored)\<lparr> share_count := Some (js_add_one (count_or_0 r)) \<rparr> \<rparr>
                   in (Inr (i, r'), t(i \<mapsto> r')))))"

text \<open>Poetry.deleteById\<close>

definition deleteById :: "db_env \<Rightarrow> table \<Rightarrow> jsstring \<Rightarrow> (db_error + bool) \<times> table" where
  "deleteById env t i =
     (if delete_fails env then (Inl DbError, t) else (Inr True, t(i := None)))"

section \<open>The inference service (DoubaoService.generatePoetryFromImage)\<close>

text \<open>The image goes to the model as a URL or as the bytes of a buffer (sent as a base64
  data URI).\<close>

datatype image_ref = ImageUrl jsstring | ImageData bytes

text \<open>What the HTTPS request to the model comes to: the request fails (network error,
  timeout), or there is a response: its status and the text at
  \<open>choices[0].message.content\<close> of its payload, \<open>None\<close> when the payload has no such
  text.\<close>

datatype api_outcome = RequestFailed | Response nat "jsstring option"

datatype inference_error = InferenceError

text \<open>
  Every failure inside the \<open>try\<close> block (the rejected request, a status other than 200,
  the TypeError on a malformed payload) is caught there and thrown again as an Error,
  whose message is chosen by the text of the first error; the text of the model is
  trimmed and parsed.
\<close>

definition generatePoetryFromImage ::
  "(image_ref \<Rightarrow> jsstring \<Rightarrow> api_outcome) \<Rightarrow> image_ref \<Rightarrow> jsstring \<Rightarrow> inference_error + parsed" where
  "generatePoetryFromImage api imageInput st =
     (case api imageInput st of
        RequestFailed \<Rightarrow> Inl InferenceError
      | Response code text \<Rightarrow>
          if code \<noteq> 200 then Inl InferenceError
          else (case text of
                  None \<Rightarrow> Inl InferenceError
                | Some raw \<Rightarrow>
                    (case parsePoetryResult (Some (trim raw)) of
                       Inr p \<Rightarrow> Inr p
                     | Inl e \<Rightarrow> Inl InferenceError)))"

section \<open>The controller (PoetryController)\<close>

subsection \<open>The canned poems\<close>

text \<open>The four styles: gufeng (U+53E4 U+98CE), xiandai (U+73B0 U+4EE3), langman
  (U+6D6A U+6F2B) and zheli (U+54F2 U+7406).\<close>

definition style_gufeng :: jsstring where "style_gufeng = [0x53E4, 0x98CE]"
definition style_xiandai :: jsstring where "style_xiandai = [0x73B0, 0x4EE3]"
definition style_langman :: jsstring where "style_langman = [0x6D6A, 0x6F2B]"
definition style_zheli :: jsstring where "style_zheli = [0x54F2, 0x7406]"

text \<open>An entry of the object literal \<open>mockPoetries\<close>: a title and four lines.\<close>

record mock_entry =
  mock_title :: jsstring
  mock_content :: "jsstring list"

definition mock_gufeng :: mock_entry where
  "mock_gufeng =
     \<lparr> mock_title = [0x6625, 0x65E5, 0x5373, 0x666F],
       mock_content =
         [[0x5C71, 0x6C34, 0x5982, 0x753B, 0x610F, 0x5883, 0x6DF1],
          [0x6E05, 0x98CE, 0x5F90, 0x6765, 0x82B1, 0x6EE1, 0x6797],
          [0x8BD7, 0x60C5, 0x753B, 0x610F, 0x5171, 0x6B64, 0x65F6],
          [0x4E07, 0x7269, 0x53EF, 0x4F5C, 0x8BD7, 0x4E00, 0x9996]] \<rparr>"

definition mock_xiandai :: mock_entry where
  "mock_xiandai =
     \<lparr> mock_title = [0x5149, 0x5F71, 0x77AC, 0x95F4],
       mock_content =
         [[0x5149, 0x5F71, 0x4EA4, 0x7EC7, 0x7684, 0x77AC, 0x95F4],
          [0x6355, 0x6349, 0x65F6, 0x5149, 0x7684, 0x8DB3, 0x8FF9],
          [0x6BCF, 0x4E00, 0x5E27, 0x90FD, 0x662F, 0x8BD7],
          [0x751F, 0x6D3B, 0x5904, 0x5904, 0x6709, 0x60CA, 0x559C]] \<rparr>"

definition mock_langman :: mock_entry where
  "mock_langman =
     \<lparr> mock_title = [0x5C81, 0x6708, 0x9759, 0x597D],
       mock_content =
         [[0x82B1, 0x5F00, 0x82B1, 0x843D, 0x60C5, 0x4F9D, 0x65E7],
          [0x5C81, 0x6708, 0x9759, 0x597D, 0x4F60, 0x4F9D, 0x7136],
          [0x6E29, 0x67D4, 0x5982, 0x6C34, 0x8BDD, 0x76F8, 0x601D],
          [0x7231, 0x5728, 0x5FC3, 0x4E2D, 0x6C38, 0x4E0D, 0x53D8]] \<rparr>"

definition mock_zheli :: mock_entry where
  "mock_zheli =
     \<lparr> mock_title = [0x4EBA, 0x751F, 0x611F, 0x609F],
       mock_content =
         [[0x4E07, 0x8C61, 0x66F4, 0x65B0, 0x89C1, 0x771F, 0x77E5],
          [0x4EBA, 0x751F, 0x5982, 0x68A6, 0x4EA6, 0x5982, 0x8BD7],
          [0x65F6, 0x5149, 0x834F, 0x82D2, 0x609F, 0x4EBA, 0x751F],
          [0x667A, 0x6167, 0x4E4B, 0x5149, 0x7167, 0x524D, 0x8DEF]] \<rparr>"

text \<open>
  \<open>mockPoetries[style]\<close> reads a property of an object literal: one of its four own
  entries, or a property the object inherits from \<open>Object.prototype\<close> (a function, or
  the prototype itself for \<open>__proto__\<close>: a truthy value that has no \<open>content\<close> and no
  \<open>title\<close>), or \<open>undefined\<close>.
\<close>

datatype lookup = Entry mock_entry | Inherited | Undefined

definition object_prototype_names :: "jsstring list" where
  "object_prototype_names =
     map ascii [''constructor'', ''__defineGetter__'', ''__defineSetter__'', ''hasOwnProperty'',
                ''__lookupGetter__'', ''__lookupSetter__'', ''isPrototypeOf'',
                ''propertyIsEnumerable'', ''toString'', ''valueOf'', ''__proto__'',
                ''toLocaleString'']"

definition mockPoetries :: "jsstring \<Rightarrow> lookup" where
  "mockPoetries st =
     (if st = style_gufeng then Entry mock_gufeng
      else if st = style_xiandai then Entry mock_xiandai
      else if st = style_langman then Entry mock_langman
      else if st = style_zheli then Entry mock_zheli
      else if st \<in> set object_prototype_names then Inherited
      else Undefined)"

text \<open>\<open>mockPoetries[style] || mockPoetries['xiandai']\<close>\<close>

definition mockData :: "jsstring \<Rightarrow> lookup" where
  "mockData st = (case mockPoetries st of Undefined \<Rightarrow> mockPoetries style_xiandai | l \<Rightarrow> l)"

text \<open>The description of the canned result; its analysis is the default analysis of the
  parser.\<close>

definition mock_description :: jsstring where
  "mock_description =
     [0x8FD9, 0x662F, 0x4E00, 0x5F20, 0x7F8E, 0x4E3D, 0x7684, 0x56FE, 0x7247, 0xFF0C, 0x5C55,
      0x73B0, 0x4E86, 0x4E30, 0x5BCC, 0x7684, 0x89C6, 0x89C9, 0x5185, 0x5BB9, 0x548C, 0x6DF1,
      0x5C42, 0x7684, 0x610F, 0x5883, 0x3002]"

subsection \<open>Requests, responses and the state of the service\<close>

text \<open>The state the requests act on: the rows of the table and the objects of the
  bucket.\<close>

record app_state =
  poems :: table
  objects :: bucket

text \<open>The body of POST /api/poetry/generate: \<open>req.file\<close> and the four keys read from
  \<open>req.body\<close>, each absent or a string.\<close>

record generate_request =
  req_file :: "upload_file option"
  imageBuffer :: "jsstring option"
  imageUrl :: "jsstring option"
  req_style :: "jsstring option"
  userId :: "jsstring option"

text \<open>
  The collaborators of one generation request: the test of the validation library for a
  URI, the storage, the model, the database, the decoding of a base64 string into bytes,
  and three readings of the clock: at the start, after the generation, and in the
  placeholder id.
\<close>

record gen_env =
  uri :: "jsstring \<Rightarrow> bool"
  oss :: oss_env
  api :: "image_ref \<Rightarrow> jsstring \<Rightarrow> api_outcome"
  db :: db_env
  base64 :: "jsstring \<Rightarrow> bytes"
  startTime :: nat
  endTime :: nat
  tempTime :: nat

text \<open>The \<open>data\<close> of the 201 response of the generation: the poem (id, content, style,
  title, length), the description of the image, the processing time and the model, and the
  \<open>note\<close> of the response that was not persisted.\<close>

record generated_body =
  g_id :: jsstring
  g_content :: "jsstring list"
  g_style :: jsstring
  g_title :: "jsstring option"
  g_length :: nat
  g_description :: jsstring
  g_processingTime :: int
  g_model :: jsstring
  g_note :: "jsstring option"

datatype body =
  ErrorBody
  | GeneratedBody generated_body
  | FeedbackBody feedback
  | ShareBody "jsstring option" "nat option" "bool option"
  | DeletedBody

record response =
  status :: nat
  body :: body

text \<open>The text of the note: "the data was not saved to the database, try again later".\<close>

definition note_text :: jsstring where
  "note_text =
     [0x6570, 0x636E, 0x672A, 0x4FDD, 0x5B58, 0x5230, 0x6570, 0x636E, 0x5E93, 0xFF0C, 0x8BF7,
      0x7A0D, 0x540E, 0x91CD, 0x8BD5]"

subsection \<open>generatePoetry\<close>

text \<open>The upload of the file of a generation request: the upload path is chosen by the
  size; when the upload throws, the URL is \<open>null\<close> and the request goes on.\<close>

definition store_upload :: "oss_env \<Rightarrow> bucket \<Rightarrow> upload_file \<Rightarrow> jsstring option \<times> bucket" where
  "store_upload env b f =
     (case (if file_size f > threshold
            then multipartUploadImage env b (buffer f) (originalname f) (ascii ''poetry'')
            else uploadImage env b (buffer f) (originalname f) (ascii ''poetry'')) of
        (Inr d, b') \<Rightarrow> (Some (url d), b')
      | (Inl e, b') \<Rightarrow> (None, b'))"

text \<open>Step 1 of the handler: \<open>finalImageUrl\<close> starts as the \<open>imageUrl\<close> of the body and,
  for an uploaded file, becomes the URL of the stored object or \<open>null\<close>.\<close>

definition ingest :: "gen_env \<Rightarrow> app_state \<Rightarrow> generate_request \<Rightarrow> jsstring option \<times> bucket" where
  "ingest env s req =
     (case req_file req of
        Some f \<Rightarrow> store_upload (oss env) (objects s) f
      | None \<Rightarrow> (imageUrl req, objects s))"

text \<open>Step 2 chooses what the model gets: the URL when there is one, else the bytes of
  the file, else the decoded \<open>imageBuffer\<close>; with none of them the code throws.\<close>

definition image_input :: "gen_env \<Rightarrow> generate_request \<Rightarrow> jsstring option \<Rightarrow> image_ref option" where
  "image_input env req finalImageUrl =
     (if truthy finalImageUrl then map_option ImageUrl finalImageUrl
      else case req_file req of
             Some f \<Rightarrow> Some (ImageData (buffer f))
           | None \<Rightarrow>
               if truthy (imageBuffer req)
               then map_option (\<lambda>s. ImageData (base64 env s)) (imageBuffer req)
               else None)"

text \<open>
  The result of step 2. Whatever the \<open>try\<close> throws is caught and replaced by the canned
  result of the style. When \<open>mockData\<close> is an inherited property, \<open>result.poetry\<close> is
  \<open>undefined\<close> (\<open>NoPoem\<close>).
\<close>

datatype generated = Poem parsed | NoPoem

definition infer_or_mock :: "gen_env \<Rightarrow> generate_request \<Rightarrow> jsstring option \<Rightarrow> jsstring \<Rightarrow> generated" where
  "infer_or_mock env req finalImageUrl st =
     (case (case image_input env req finalImageUrl of
              Some i \<Rightarrow> generatePoetryFromImage (api env) i st
            | None \<Rightarrow> Inl InferenceError) of
        Inr p \<Rightarrow> Poem p
      | Inl e \<Rightarrow>
          (case mockData st of
             Entry m \<Rightarrow>
               Poem \<lparr> poetry = mock_content m, imageDescription = mock_description,
                      analysis = default_analysis, title = Some (mock_title m) \<rparr>
           | _ \<Rightarrow> NoPoem))"

text \<open>
  The handler. \<open>style\<close> has the default gufeng when the body has no such key. Without
  a poem, \<open>result.poetry.length\<close> raises a TypeError while the record is assembled and
  again in the \<open>catch\<close> of the persistence, which the outermost \<open>catch\<close> answers with
  status 500. With a poem the record is created and the response is built from the
  instance; when the creation throws, the response is built from the result, with the
  placeholder id and the note.
\<close>

definition generatePoetry :: "gen_env \<Rightarrow> app_state \<Rightarrow> generate_request \<Rightarrow> response \<times> app_state" where
  "generatePoetry env s req =
     (let st = (case req_style req of None \<Rightarrow> style_gufeng | Some x \<Rightarrow> x)
      in if req_file req = None \<and> \<not> truthy (imageUrl req) \<and> \<not> truthy (imageBuffer req)
         then (\<lparr> status = 400, body = ErrorBody \<rparr>, s)
         else
           (case ingest env s req of
              (finalImageUrl, b') \<Rightarrow>
                (case infer_or_mock env req finalImageUrl st of
                   NoPoem \<Rightarrow> (\<lparr> status = 500, body = ErrorBody \<rparr>, s\<lparr> objects := b' \<rparr>)
                 | Poem result \<Rightarrow>
                     (let elapsed = int (endTime env) - int (startTime env);
                          pd = \<lparr> pd_userId = userId req,
                                 pd_description = imageDescription result,
                                 pd_poetry = \<lparr> content = poetry result, poem_title = title result,
                                               style = st, poem_length = length (poetry result) \<rparr>,
                                 pd_model = ascii ''doubao-pro'',
                                 pd_processingTime = elapsed \<rparr>
                      in case create (db env) (poems s) pd of
                           (Inr (i, r), t') \<Rightarrow>
                             (\<lparr> status = 201,
                                 body = GeneratedBody
                                   \<lparr> g_id = i,
                                     g_content = content (row_poetry r),
                                     g_style = style (row_poetry r),
                                     g_title = poem_title (row_poetry r),
                                     g_length = poem_length (row_poetry r),
                                     g_description = imageDescription result,
                                     g_processingTime = elapsed,
                                     g_model = generation_model r,
                                     g_note = None \<rparr> \<rparr>,
                              \<lparr> poems = t', objects = b' \<rparr>)
                         | (Inl e, t') \<Rightarrow>
                             (\<lparr> status = 201,
                                 body = GeneratedBody
                                   \<lparr> g_id = ascii ''temp_'' @ decimal (tempTime env),
                                     g_content = poetry result,
                                     g_style = st,
                                     g_title = title result,
                                     g_length = length (poetry result),
                                     g_description = imageDescription result,
                                     g_processingTime = elapsed,
                                     g_model = ascii ''doubao-pro'',
                                     g_note = Some note_text \<rparr> \<rparr>,
                              \<lparr> poems = t', objects = b' \<rparr>)))))"

subsection \<open>updateFeedback, sharePoetry, deletePoetry\<close>

text \<open>
  PUT /api/poetry/:id/feedback has two awaited steps. The first finds the record and
  replaces, on the instance in memory, each key of the feedback that the body gives;
  its result is a response, when the record is not found, or that instance. The second
  saves the instance, all columns of it, and answers with its feedback.
\<close>

definition updateFeedback_find ::
  "db_env \<Rightarrow> table \<Rightarrow> jsstring \<Rightarrow> feedback \<Rightarrow> response + jsstring \<times> row" where
  "updateFeedback_find env t i fb =
     (case findById env t i of
        Inl e \<Rightarrow> Inl \<lparr> status = 500, body = ErrorBody \<rparr>
      | Inr None \<Rightarrow> Inl \<lparr> status = 404, body = ErrorBody \<rparr>
      | Inr (Some (j, r)) \<Rightarrow>
          (let f0 = row_feedback r;
               f1 = (case rating fb of None \<Rightarrow> f0 | Some x \<Rightarrow> f0\<lparr> rating := Some x \<rparr>);
               f2 = (case comment fb of None \<Rightarrow> f1 | Some x \<Rightarrow> f1\<lparr> comment := Some x \<rparr>);
               f3 = (case isLiked fb of None \<Rightarrow> f2 | Some x \<Rightarrow> f2\<lparr> isLiked := Some x \<rparr>)
           in Inr (j, r\<lparr> row_feedback := f3 \<rparr>)))"

definition updateFeedback_save ::
  "db_env \<Rightarrow> table \<Rightarrow> jsstring \<times> row \<Rightarrow> response \<times> table" where
  "updateFeedback_save env t p =
     (case save env t p of
        (Inl e, t') \<Rightarrow> (\<lparr> status = 500, body = ErrorBody \<rparr>, t')
      | (Inr (k, r'), t') \<Rightarrow> (\<lparr> status = 200, body = FeedbackBody (row_feedback r') \<rparr>, t'))"

text \<open>The handler, when no other request writes between its two steps.\<close>

definition updateFeedback ::
  "db_env \<Rightarrow> table \<Rightarrow> jsstring \<Rightarrow> feedback \<Rightarrow> response \<times> table" where
  "updateFeedback env t i fb =
     (case updateFeedback_find env t i fb of
        Inl resp \<Rightarrow> (resp, t)
      | Inr p \<Rightarrow> updateFeedback_save env t p)"

text \<open>
  POST /api/poetry/:id/share has two awaited steps as well. The first finds the record
  and sets \<open>isPublic\<close> (default \<open>true\<close>) and the share URL \<open>/poetry/<id>\<close> on the
  instance. The second increments the count; the response reads the instance, which is
  then the row of the database.
\<close>

definition sharePoetry_find ::
  "db_env \<Rightarrow> table \<Rightarrow> jsstring \<Rightarrow> bool option \<Rightarrow> response + jsstring \<times> row" where
  "sharePoetry_find env t i pub =
     (case findById env t i of
        Inl e \<Rightarrow> Inl \<lparr> status = 500, body = ErrorBody \<rparr>
      | Inr None \<Rightarrow> Inl \<lparr> status = 404, body = ErrorBody \<rparr>
      | Inr (Some (j, r)) \<Rightarrow>
          Inr (j, r\<lparr> row_share := (row_share r)
                      \<lparr> isPublic := Some (case pub of None \<Rightarrow> True | Some p \<Rightarrow> p),
                        shareUrl := Some (ascii ''/poetry/'' @ j) \<rparr> \<rparr>))"

definition sharePoetry_increment ::
  "db_env \<Rightarrow> table \<Rightarrow> jsstring \<times> row \<Rightarrow> response \<times> table" where
  "sharePoetry_increment env t p =
     (case incrementShareCount env t p of
        (Inl e, t') \<Rightarrow> (\<lparr> status = 500, body = ErrorBody \<rparr>, t')
      | (Inr (k, r'), t') \<Rightarrow>
          (\<lparr> status = 200,
              body = ShareBody (shareUrl (row_share r')) (share_count (row_share r'))
                       (isPublic (row_share r')) \<rparr>,
           t'))"

definition sharePoetry ::
  "db_env \<Rightarrow> table \<Rightarrow> jsstring \<Rightarrow> bool option \<Rightarrow> response \<times> table" where
  "sharePoetry env t i pub =
     (case sharePoetry_find env t i pub of
        Inl resp \<Rightarrow> (resp, t)
      | Inr p \<Rightarrow> sharePoetry_increment env t p)"

text \<open>DELETE /api/poetry/:id: \<open>if (poetry.userId && poetry.userId !== userId)\<close> answers
  403; \<open>userId\<close> is the key of the body, absent or a string.\<close>

definition deletePoetry ::
  "db_env \<Rightarrow> table \<Rightarrow> jsstring \<Rightarrow> jsstring option \<Rightarrow> response \<times> table" where
  "deletePoetry env t i caller =
     (case findById env t i of
        Inl e \<Rightarrow> (\<lparr> status = 500, body = ErrorBody \<rparr>, t)
      | Inr None \<Rightarrow> (\<lparr> status = 404, body = ErrorBody \<rparr>, t)
      | Inr (Some (j, r)) \<Rightarrow>
          if truthy (user_id r) \<and> user_id r \<noteq> caller
          then (\<lparr> status = 403, body = ErrorBody \<rparr>, t)
          else (case deleteById env t i of
                  (Inl e, t') \<Rightarrow> (\<lparr> status = 500, body = ErrorBody \<rparr>, t')
                | (Inr ok, t') \<Rightarrow> (\<lparr> status = 200, body = DeletedBody \<rparr>, t')))"

subsection \<open>The validation middleware and the routes\<close>

text \<open>
  validatePoetryGeneration runs before generatePoetry on POST /api/poetry/generate. It
  answers 400 when the request has no file, no \<open>imageUrl\<close> and no \<open>imageBuffer\<close>, and
  when the body breaks the schema: \<open>imageBuffer\<close> and \<open>userId\<close>, when present, are
  strings that are not empty; \<open>imageUrl\<close>, when present, is a string that is not empty
  and a URI; \<open>style\<close>, when present, is one of the four styles. The default of the
  schema for \<open>style\<close> is not written back to the body. The value is whether the
  request passes.
\<close>

definition validatePoetryGeneration :: "(jsstring \<Rightarrow> bool) \<Rightarrow> generate_request \<Rightarrow> bool" where
  "validatePoetryGeneration is_uri req \<longleftrightarrow>
     (req_file req \<noteq> None \<or> truthy (imageUrl req) \<or> truthy (imageBuffer req)) \<and>
     (case imageBuffer req of None \<Rightarrow> True | Some b \<Rightarrow> b \<noteq> []) \<and>
     (case imageUrl req of None \<Rightarrow> True | Some u \<Rightarrow> u \<noteq> [] \<and> is_uri u) \<and>
     (case req_style req of
        None \<Rightarrow> True
      | Some x \<Rightarrow> x \<in> set [style_gufeng, style_xiandai, style_langman, style_zheli]) \<and>
     (case userId req of None \<Rightarrow> True | Some u \<Rightarrow> u \<noteq> [])"

text \<open>The route POST /api/poetry/generate, behind the upload middleware, which gives
  \<open>req.file\<close>: the validation, then the handler.\<close>

definition generate_route :: "gen_env \<Rightarrow> app_state \<Rightarrow> generate_request \<Rightarrow> response \<times> app_state" where
  "generate_route env s req =
     (if validatePoetryGeneration (uri env) req then generatePoetry env s req
      else (\<lparr> status = 400, body = ErrorBody \<rparr>, s))"

text \<open>
  validateFeedback runs before updateFeedback: a rating, when present, is a number from
  1 to 5; a comment, when present, is a string that is not empty and has at most 500
  code units.
\<close>

definition validateFeedback :: "feedback \<Rightarrow> bool" where
  "validateFeedback fb \<longleftrightarrow>
     (case rating fb of None \<Rightarrow> True | Some x \<Rightarrow> 1 \<le> x \<and> x \<le> 5) \<and>
     (case comment fb of None \<Rightarrow> True | Some c \<Rightarrow> c \<noteq> [] \<and> length c \<le> 500)"

subsection \<open>Requests, one after the other and interleaved\<close>

text \<open>A request to one of the four routes that write records, with the collaborators
  it meets. The routes of the share and of the deletion have no validation.\<close>

datatype request =
  Generate gen_env generate_request
  | Feedback db_env jsstring feedback
  | Share db_env jsstring "bool option"
  | Delete db_env jsstring "jsstring option"

text \<open>
  A request that is handled from its arrival to its response while no other request is
  handled: the middleware and the handler of its route.
\<close>

fun handle :: "request \<Rightarrow> app_state \<Rightarrow> response \<times> app_state" where
  "handle (Generate env req) s = generate_route env s req"
| "handle (Feedback env i fb) s =
     (if validateFeedback fb
      then (case updateFeedback env (poems s) i fb of (r, t') \<Rightarrow> (r, s\<lparr> poems := t' \<rparr>))
      else (\<lparr> status = 400, body = ErrorBody \<rparr>, s))"
| "handle (Share env i p) s =
     (case sharePoetry env (poems s) i p of (r, t') \<Rightarrow> (r, s\<lparr> poems := t' \<rparr>))"
| "handle (Delete env i u) s =
     (case deletePoetry env (poems s) i u of (r, t') \<Rightarrow> (r, s\<lparr> poems := t' \<rparr>))"

text \<open>
  Node runs the handlers of several requests in one thread and switches between them
  at their awaits. A request in flight has arrived, or it holds the instance it found and
  waits to write, or it has its response. The feedback and the share read a record and
  write it back later, so they take two steps; the generation only inserts a new row and
  the deletion writes back nothing it has read, so each is taken as one step.
\<close>

datatype thread =
  Arrived request
  | FeedbackFound db_env "jsstring \<times> row"
  | ShareFound db_env "jsstring \<times> row"
  | Finished response

fun advance :: "thread \<Rightarrow> app_state \<Rightarrow> thread \<times> app_state" where
  "advance (Arrived (Generate env req)) s =
     (case generate_route env s req of (r, s') \<Rightarrow> (Finished r, s'))"
| "advance (Arrived (Feedback env i fb)) s =
     (if validateFeedback fb
      then (case updateFeedback_find env (poems s) i fb of
              Inl r \<Rightarrow> (Finished r, s)
            | Inr p \<Rightarrow> (FeedbackFound env p, s))
      else (Finished \<lparr> status = 400, body = ErrorBody \<rparr>, s))"
| "advance (FeedbackFound env p) s =
     (case updateFeedback_save env (poems s) p of (r, t') \<Rightarrow> (Finished r, s\<lparr> poems := t' \<rparr>))"
| "advance (Arrived (Share env i pub)) s =
     (case sharePoetry_find env (poems s) i pub of
        Inl r \<Rightarrow> (Finished r, s)
      | Inr p \<Rightarrow> (ShareFound env p, s))"
| "advance (ShareFound env p) s =
     (case sharePoetry_increment env (poems s) p of (r, t') \<Rightarrow> (Finished r, s\<lparr> poems := t' \<rparr>))"
| "advance (Arrived (Delete env i u)) s =
     (case deletePoetry env (poems s) i u of (r, t') \<Rightarrow> (Finished r, s\<lparr> poems := t' \<rparr>))"
| "advance (Finished r) s = (Finished r, s)"


section \<open>Sample collaborators, requests and records\<close>

text \<open>
  The values at which the theorems below are instantiated. The storage of the sample
  accepts every object, its clock reads 7 and its re-encoding rejects every buffer: the
  bytes are no image. The model of the sample cannot be reached. One database works, the
  other rejects every insert.
\<close>

definition sample_oss :: oss_env where
  "sample_oss =
     \<lparr> sharp = (\<lambda>x. None), now = 7, uuid = ascii ''u1'', baseUrl = ascii ''https://cdn'',
       put = (\<lambda>k d. None), writeFile = True, multipartUpload = (\<lambda>k d. None) \<rparr>"

definition sample_file :: upload_file where
  "sample_file =
     \<lparr> buffer = [0x00, 0x01], originalname = ascii ''cat.png'',
       file_mimetype = ascii ''image/png'', file_size = 2 \<rparr>"

definition sample_db :: db_env where
  "sample_db =
     \<lparr> insert_fails = False, select_fails = False, update_fails = False, delete_fails = False,
       new_id = ascii ''p2'', no_row_is_error = True \<rparr>"

definition sample_db_down :: db_env where
  "sample_db_down = sample_db\<lparr> insert_fails := True \<rparr>"

definition sample_env :: gen_env where
  "sample_env =
     \<lparr> uri = starts_with (ascii ''http://''), oss = sample_oss, api = (\<lambda>i s. RequestFailed),
       db = sample_db_down,
       base64 = (\<lambda>s. []), startTime = 1, endTime = 4, tempTime = 5 \<rparr>"

definition sample_request :: generate_request where
  "sample_request =
     \<lparr> req_file = None, imageBuffer = None, imageUrl = Some (ascii ''http://x/cat.jpg''),
       req_style = None, userId = None \<rparr>"

definition sample_state :: app_state where
  "sample_state = \<lparr> poems = Map.empty, objects = Map.empty \<rparr>"

text \<open>A row owned by "alice", shared no time so far.\<close>

definition sample_row :: row where
  "sample_row =
     \<lparr> user_id = Some (ascii ''alice''), description = ascii ''a cat'',
       row_poetry = \<lparr> content = [ascii ''one'', ascii ''two''], poem_title = Some (ascii ''Cat''),
                      style = style_gufeng, poem_length = 2 \<rparr>,
       generation_model = ascii ''doubao-pro'', processingTime = 3,
       row_feedback = \<lparr> rating = None, comment = None, isLiked = None \<rparr>,
       row_share = \<lparr> is_public = Some False, share_count = Some 0, isPublic = None,
                     shareUrl = None \<rparr> \<rparr>"

definition sample_table :: table where
  "sample_table = [ascii ''p1'' \<mapsto> sample_row]"



section \<open>Properties of the parser\<close>

subsection \<open>Searching for markers\<close>

lemma starts_with_self: "starts_with m (m @ r)"
  by (induction m) auto

lemma starts_with_head: "m \<noteq> [] \<Longrightarrow> c \<noteq> hd m \<Longrightarrow> \<not> starts_with m (c # cs)"
  by (cases m) auto

lemma starts_with_appendD: "starts_with (p @ q) s \<Longrightarrow> starts_with p s"
  by (induction p s rule: starts_with.induct) auto

lemma no_star_inside:
  "42 \<notin> set d \<Longrightarrow> c \<noteq> 42 \<Longrightarrow> c \<notin> set p \<Longrightarrow> \<not> starts_with (p @ [42]) (d @ c # r)"
proof (induction p arbitrary: d)
  case Nil
  then show ?case by (cases d) auto
next
  case (Cons a p)
  then show ?case by (cases d) auto
qed

lemma after_marker_found: "m \<noteq> [] \<Longrightarrow> after_marker m (m @ r) = Some r"
  by (cases m) (auto simp: starts_with_self)

lemma after_marker_skip:
  "42 \<notin> set xs \<Longrightarrow> m \<noteq> [] \<Longrightarrow> hd m = 42 \<Longrightarrow> after_marker m (xs @ c # r) = after_marker m (c # r)"
  by (induction xs) (auto simp: starts_with_head)

lemma lazy_until_skip:
  "42 \<notin> set xs \<Longrightarrow> \<forall>m\<in>set stops. m \<noteq> [] \<and> hd m = 42 \<Longrightarrow>
   lazy_until stops (xs @ r) = xs @ lazy_until stops r"
  by (induction xs) (auto simp: list_ex_iff starts_with_head)

lemma lazy_until_stop: "m \<in> set stops \<Longrightarrow> m \<noteq> [] \<Longrightarrow> lazy_until stops (m @ r) = []"
proof -
  assume a: "m \<in> set stops" "m \<noteq> []"
  from a(2) obtain c cs where m: "m = c # cs" by (cases m) auto
  have "starts_with m (c # cs @ r)" using starts_with_self[of m r] by (simp add: m)
  with a(1) have "list_ex (\<lambda>m. starts_with m (c # cs @ r)) stops" by (auto simp: list_ex_iff)
  then show ?thesis by (simp add: m)
qed

lemma lazy_until_nostops: "lazy_until [] s = s"
  by (induction s) auto

lemma trim_id: "s \<noteq> [] \<Longrightarrow> \<not> is_space (hd s) \<Longrightarrow> \<not> is_space (last s) \<Longrightarrow> trim s = s"
proof -
  assume a: "s \<noteq> []" "\<not> is_space (hd s)" "\<not> is_space (last s)"
  from a(1,2) have d: "dropWhile is_space s = s" by (cases s) auto
  from a(1,3) have "dropWhile is_space (rev s) = rev s"
    by (cases s rule: rev_cases) auto
  with d show ?thesis by (simp add: trim_def)
qed

lemma trim_fixD:
  assumes "trim s = s" "s \<noteq> []"
  shows "\<not> is_space (hd s)" "\<not> is_space (last s)"
proof -
  have len: "length (dropWhile is_space s) \<le> length s" by (simp add: length_dropWhile_le)
  have "length (trim s) \<le> length (dropWhile is_space s)"
    unfolding trim_def by (simp add: length_dropWhile_le[of is_space "rev (dropWhile is_space s)", simplified])
  with assms len have eq: "length (dropWhile is_space s) = length s" by simp
  then have d: "dropWhile is_space s = s"
    by (metis append_eq_conv_conj append_self_conv2 takeWhile_dropWhile_id length_append add_cancel_left_left length_0_conv)
  from d assms(2) show "\<not> is_space (hd s)" by (metis hd_dropWhile)
  from assms d have "rev (dropWhile is_space (rev s)) = s" by (simp add: trim_def)
  then have "dropWhile is_space (rev s) = rev s" by (metis rev_rev_ident)
  with assms(2) show "\<not> is_space (last s)" by (metis hd_dropWhile hd_rev rev_is_Nil_conv)
qed

lemma split_nl_single: "10 \<notin> set a \<Longrightarrow> split_nl a = [a]"
  by (induction a) auto

lemma split_nl_append: "10 \<notin> set a \<Longrightarrow> split_nl (a @ 10 # b) = a # split_nl b"
  by (induction a) auto

lemma title_match_line:
  "t \<noteq> [] \<Longrightarrow> \<forall>c\<in>set t. \<not> is_line_terminator c \<Longrightarrow> title_match (t @ 10 # r) = Some t"
  by (simp add: title_match_def takeWhile_append2 dropWhile_append2 Let_def is_line_terminator_def)

lemma dropWhile_trimmed: "trim s = s \<Longrightarrow> dropWhile is_space (s @ r) = (if s = [] then dropWhile is_space r else s @ r)"
  using trim_fixD(1)[of s] by (cases s) auto

lemma line_feed_is_space: "is_space 10"
  by (simp add: is_space_def is_line_terminator_def)

lemma asterisk_no_space: "\<not> is_space 42"
  by (simp add: is_space_def is_line_terminator_def)

lemma description_section:
  assumes "trim D = D" "42 \<notin> set D"
  shows "match_section marker_description [marker_poetry, marker_analysis]
           (marker_description @ D @ 10 # marker_poetry @ r) = Some (if D = [] then [] else D @ [10])"
proof -
  have am: "after_marker marker_description (marker_description @ D @ 10 # marker_poetry @ r)
            = Some (D @ 10 # marker_poetry @ r)"
    by (rule after_marker_found) (simp add: marker_description_def)
  have stop: "lazy_until [marker_poetry, marker_analysis] (marker_poetry @ r) = []"
    by (rule lazy_until_stop) (simp_all add: marker_poetry_def)
  have skip: "lazy_until [marker_poetry, marker_analysis] ((D @ [10]) @ marker_poetry @ r)
              = (D @ [10]) @ lazy_until [marker_poetry, marker_analysis] (marker_poetry @ r)"
    by (rule lazy_until_skip) (use assms(2) in \<open>simp_all add: marker_poetry_def marker_analysis_def\<close>)
  have dw: "dropWhile is_space (marker_poetry @ r) = marker_poetry @ r"
    by (simp add: marker_poetry_def asterisk_no_space)
  show ?thesis
    using skip by (simp add: match_section_def am dropWhile_trimmed[OF assms(1)] line_feed_is_space dw stop)
qed

lemma no_marker_tail:
  assumes "42 \<notin> set d" "a \<noteq> 10" "b \<noteq> 10" "c \<noteq> 10"
  shows "\<not> starts_with [a, b, c, 42, 42] (d @ 10 # r)"
proof
  assume "starts_with [a, b, c, 42, 42] (d @ 10 # r)"
  then have "starts_with ([a, b, c] @ [42]) (d @ 10 # r)"
    using starts_with_appendD[of "[a, b, c, 42]" "[42]" "d @ 10 # r"] by simp
  moreover have "\<not> starts_with ([a, b, c] @ [42]) (d @ 10 # r)"
    by (rule no_star_inside) (use assms in simp_all)
  ultimately show False by simp
qed

lemma no_marker_star: "42 \<notin> set d \<Longrightarrow> \<not> starts_with (42 # p) (d @ 10 # r)"
  by (cases d) auto

lemma after_marker_line:
  "42 \<notin> set d \<Longrightarrow> m \<noteq> [] \<Longrightarrow> hd m = 42 \<Longrightarrow> after_marker m (d @ 10 # r) = after_marker m r"
  by (simp add: after_marker_skip starts_with_head)

lemma poetry_past_description:
  assumes "42 \<notin> set D"
  shows "after_marker marker_poetry (marker_description @ D @ 10 # r) = after_marker marker_poetry r"
proof -
  have "after_marker marker_poetry (marker_description @ D @ 10 # r)
        = after_marker marker_poetry (D @ 10 # r)"
    using no_marker_tail[OF assms, of "0x8BD7" "0x6B4C" "0xFF1A" r] no_marker_star[OF assms]
    by (simp add: marker_description_def marker_poetry_def)
  also have "\<dots> = after_marker marker_poetry r"
    by (rule after_marker_line) (simp_all add: assms marker_poetry_def)
  finally show ?thesis .
qed

lemma analysis_past_description:
  assumes "42 \<notin> set D"
  shows "after_marker marker_analysis (marker_description @ D @ 10 # r) = after_marker marker_analysis r"
proof -
  have "after_marker marker_analysis (marker_description @ D @ 10 # r)
        = after_marker marker_analysis (D @ 10 # r)"
    using no_marker_tail[OF assms, of "0x5206" "0x6790" "0xFF1A" r] no_marker_star[OF assms]
    by (simp add: marker_description_def marker_analysis_def)
  also have "\<dots> = after_marker marker_analysis r"
    by (rule after_marker_line) (simp_all add: assms marker_analysis_def)
  finally show ?thesis .
qed

lemma analysis_past_poetry:
  assumes "42 \<notin> set X"
  shows "after_marker marker_analysis (marker_poetry @ X @ 10 # r) = after_marker marker_analysis r"
proof -
  have "after_marker marker_analysis (marker_poetry @ X @ 10 # r)
        = after_marker marker_analysis (X @ 10 # r)"
    using no_marker_tail[OF assms, of "0x5206" "0x6790" "0xFF1A" r] no_marker_star[OF assms]
    by (simp add: marker_poetry_def marker_analysis_def)
  also have "\<dots> = after_marker marker_analysis r"
    by (rule after_marker_line) (simp_all add: assms marker_analysis_def)
  finally show ?thesis .
qed

lemma trim_line_feed:
  assumes "s \<noteq> []" "\<not> is_space (hd s)" "\<not> is_space (last s)"
  shows "trim (s @ [10]) = s"
proof -
  from assms(1,2) have d: "dropWhile is_space (s @ [10]) = s @ [10]" by (cases s) auto
  from assms(1,3) have "dropWhile is_space (rev s) = rev s" by (cases s rule: rev_cases) auto
  with d show ?thesis by (simp add: trim_def line_feed_is_space)
qed

lemma poem_lines_two:
  assumes "trim a = a" "a \<noteq> []" "trim b = b" "b \<noteq> []" "10 \<notin> set a" "10 \<notin> set b"
  shows "poem_lines (a @ 10 # b) = [a, b]"
  using assms by (simp add: poem_lines_def split_nl_append split_nl_single)

lemmas parse_eval =
  parsePoetryResult_def parse_try_def parse_fallback_def match_section_def title_match_def
  remove_title_def poem_lines_def first_line_def trim_def is_space_def is_line_terminator_def
  marker_description_def marker_poetry_def marker_analysis_def synthetic_def ascii_def Let_def

subsection \<open>Totality\<close>

text \<open>
  C3, as stated, asks for a title that is never \<open>null\<close>. On the empty string the
  parser returns no poem line, the two defaults and the title \<open>null\<close>.
\<close>

theorem parse_empty_title_null:
  "parsePoetryResult (Some []) =
     Inr \<lparr> poetry = [], imageDescription = default_description,
           analysis = default_analysis, title = None \<rparr>"
  by (simp add: parse_eval)

text \<open>
  C3, amended: on every string the parser returns an object and raises nothing: the
  ReferenceError of the \<open>try\<close> block is caught, and the result is then the one of the
  \<open>catch\<close> block. The description and the analysis of the object are strings and its
  poem is a list of strings; the title is a string or \<open>null\<close>.
\<close>

theorem parsePoetryResult_total:
  "\<exists>r. parsePoetryResult (Some s) = Inr r \<and> (parse_try s = Inr r \<or> r = parse_fallback s)"
  by (cases "parse_try s") (simp_all add: parsePoetryResult_def)

subsection \<open>The round trip\<close>

text \<open>
  C4, as stated, holds for all strings. The parser trims each section, so the description
  " d", with a leading space, comes back as "d".
\<close>

theorem parse_round_trip_trims:
  "parsePoetryResult (Some (synthetic (ascii '' d'') (ascii ''Title'') (ascii ''one'')
      (ascii ''two'') (ascii ''a'')))
   = Inr \<lparr> poetry = [ascii ''one'', ascii ''two''], imageDescription = ascii ''d'',
           analysis = ascii ''a'', title = Some (ascii ''Title'') \<rparr> \<and>
   parsePoetryResult (Some (synthetic (ascii '' d'') (ascii ''Title'') (ascii ''one'')
      (ascii ''two'') (ascii ''a'')))
   \<noteq> Inr \<lparr> poetry = [ascii ''one'', ascii ''two''], imageDescription = ascii '' d'',
           analysis = ascii ''a'', title = Some (ascii ''Title'') \<rparr>"
  by (simp add: parse_eval)

text \<open>
  C4, amended: the synthetic input built from D, T, L1, L2 and A is parsed back into
  description D, title T, poem lines L1 and L2 and analysis A when
  D and A have no white space at either end;
  T, L1 and L2 have no white space at either end, L1 and L2 are not empty and T has at
  least two code units;
  D, T, L1 and L2 contain no asterisk, T contains no line terminator, and L1 and L2
  contain no line feed.
\<close>

theorem parse_round_trip:
  assumes D: "trim D = D" "42 \<notin> set D"
    and T: "trim T = T" "2 \<le> length T" "42 \<notin> set T" "\<forall>c\<in>set T. \<not> is_line_terminator c"
    and L1: "trim L1 = L1" "L1 \<noteq> []" "42 \<notin> set L1" "10 \<notin> set L1"
    and L2: "trim L2 = L2" "L2 \<noteq> []" "42 \<notin> set L2" "10 \<notin> set L2"
    and A: "trim A = A"
  shows "parsePoetryResult (Some (synthetic D T L1 L2 A)) =
           Inr \<lparr> poetry = [L1, L2], imageDescription = D, analysis = A, title = Some T \<rparr>"
proof -
  define P where "P = T @ 10 # L1 @ 10 # L2"
  define B where "B = L1 @ 10 # L2"
  define s where "s = synthetic D T L1 L2 A"
  from T(2) have Tne: "T \<noteq> []" by auto
  have s1: "s = marker_description @ D @ 10 # marker_poetry @ P @ 10 # marker_analysis @ A"
    by (simp add: s_def synthetic_def P_def)
  have P42: "42 \<notin> set P" using T(3) L1(3) L2(3) by (simp add: P_def)
  have hdP: "\<not> is_space (hd P)" using trim_fixD(1)[OF T(1) Tne] Tne by (simp add: P_def)
  have lastB: "\<not> is_space (last B)" using trim_fixD(2)[OF L2(1) L2(2)] L2(2) by (simp add: B_def)
  have lastP: "\<not> is_space (last P)" using lastB L2(2) by (simp add: P_def B_def)
  have hdB: "\<not> is_space (hd B)" using trim_fixD(1)[OF L1(1) L1(2)] L1(2) by (simp add: B_def)
  have Pne: "P \<noteq> []" by (simp add: P_def)
  have Bne: "B \<noteq> []" by (simp add: B_def)
  \<comment> \<open>the description section\<close>
  have "match_section marker_description [marker_poetry, marker_analysis] s
          = Some (if D = [] then [] else D @ [10])"
    unfolding s1 by (rule description_section[OF D])
  moreover have "trim (if D = [] then [] else D @ [10]) = D"
    using trim_line_feed[of D] trim_fixD[OF D(1)] by (simp add: trim_def)
  ultimately have desc: "(case match_section marker_description [marker_poetry, marker_analysis] s of
                            Some d \<Rightarrow> trim d | None \<Rightarrow> default_description) = D"
    by simp
  \<comment> \<open>the poem section\<close>
  have "after_marker marker_poetry s = after_marker marker_poetry (marker_poetry @ P @ 10 # marker_analysis @ A)"
    unfolding s1 by (rule poetry_past_description[OF D(2)])
  also have "\<dots> = Some (P @ 10 # marker_analysis @ A)"
    by (rule after_marker_found) (simp add: marker_poetry_def)
  finally have amp: "after_marker marker_poetry s = Some (P @ 10 # marker_analysis @ A)" .
  have dwp: "dropWhile is_space (P @ 10 # marker_analysis @ A) = P @ 10 # marker_analysis @ A"
    using hdP Pne by (cases P) auto
  have "lazy_until [marker_analysis] ((P @ [10]) @ marker_analysis @ A)
          = (P @ [10]) @ lazy_until [marker_analysis] (marker_analysis @ A)"
    by (rule lazy_until_skip) (use P42 in \<open>simp_all add: marker_analysis_def\<close>)
  moreover have "lazy_until [marker_analysis] (marker_analysis @ A) = []"
    by (rule lazy_until_stop) (simp_all add: marker_analysis_def)
  ultimately have "lazy_until [marker_analysis] (P @ 10 # marker_analysis @ A) = P @ [10]"
    by simp
  with amp dwp have "match_section marker_poetry [marker_analysis] s = Some (P @ [10])"
    by (simp add: match_section_def)
  then have poetry0: "(case match_section marker_poetry [marker_analysis] s of
                         Some p \<Rightarrow> trim p | None \<Rightarrow> s) = P"
    by (simp add: trim_line_feed[OF Pne hdP lastP])
  \<comment> \<open>the title line\<close>
  have tm: "title_match P = Some T"
    unfolding P_def by (rule title_match_line[OF Tne T(4)])
  have rt: "trim (remove_title P) = B"
    using trim_id[OF Bne hdB lastB] by (simp add: remove_title_def tm) (simp add: P_def B_def)
  have lines: "poem_lines B = [L1, L2]"
    unfolding B_def by (rule poem_lines_two[OF L1(1,2) L2(1,2) L1(4) L2(4)])
  \<comment> \<open>the analysis section\<close>
  have "after_marker marker_analysis s
          = after_marker marker_analysis (marker_poetry @ P @ 10 # marker_analysis @ A)"
    unfolding s1 by (rule analysis_past_description[OF D(2)])
  also have "\<dots> = after_marker marker_analysis (marker_analysis @ A)"
    by (rule analysis_past_poetry[OF P42])
  also have "\<dots> = Some A"
    by (rule after_marker_found) (simp add: marker_analysis_def)
  finally have ama: "after_marker marker_analysis s = Some A" .
  have "dropWhile is_space A = A"
    using trim_fixD(1)[OF A] by (cases A) auto
  with ama have ana: "(case match_section marker_analysis [] s of
                          Some a \<Rightarrow> trim a | None \<Rightarrow> default_analysis) = A"
    by (simp add: match_section_def lazy_until_nostops A)
  have "parse_try s = Inr \<lparr> poetry = [L1, L2], imageDescription = D, analysis = A, title = Some T \<rparr>"
    unfolding parse_try_def desc poetry0 ana
    using T(2) Tne by (simp add: tm T(1) rt lines)
  then show ?thesis
    by (simp add: parsePoetryResult_def s_def)
qed



text \<open>The round trip at a description "a cat", a title "Cat", the lines "one" and "two"
  and the analysis "warm".\<close>

theorem parse_round_trip_witness:
  "parsePoetryResult (Some (synthetic (ascii ''a cat'') (ascii ''Cat'') (ascii ''one'')
      (ascii ''two'') (ascii ''warm'')))
   = Inr \<lparr> poetry = [ascii ''one'', ascii ''two''], imageDescription = ascii ''a cat'',
           analysis = ascii ''warm'', title = Some (ascii ''Cat'') \<rparr>"
  by (rule parse_round_trip) (simp_all add: ascii_def trim_def is_space_def is_line_terminator_def)

subsection \<open>The promotion of the first line to the title\<close>

text \<open>
  C5 at the input whose description is "D", whose poem section is the one line
  "spring day" and whose analysis is "A". The poem section has no title line and its
  first line has more than two code units, so the parser takes the promotion branch; the
  branch raises the ReferenceError, and the parser returns the result of its \<open>catch\<close>
  block: the three lines of the whole input as the poem, the default description, the
  default analysis and no title.
\<close>

theorem parse_promotion_lost:
  "parse_try (marker_description @ ascii ''D'' @ [0x0A] @ marker_poetry @ ascii ''spring day'' @
              [0x0A] @ marker_analysis @ ascii ''A'') = Inl ReferenceError \<and>
   parsePoetryResult (Some (marker_description @ ascii ''D'' @ [0x0A] @ marker_poetry @
                            ascii ''spring day'' @ [0x0A] @ marker_analysis @ ascii ''A''))
     = Inr \<lparr> poetry = [marker_description @ ascii ''D'', marker_poetry @ ascii ''spring day'',
                        marker_analysis @ ascii ''A''],
             imageDescription = default_description, analysis = default_analysis,
             title = None \<rparr>"
  by (simp add: parse_eval)

section \<open>Properties of the storage service\<close>

lemmas sample_defs = sample_oss_def sample_file_def sample_db_def sample_db_down_def
  sample_env_def sample_request_def sample_state_def sample_row_def sample_table_def

lemma sample_key: "object_key sample_oss (ascii ''poetry'') = ascii ''poetry/7_u1.jpg''"
  by (simp add: object_key_def sample_oss_def decimal.simps ascii_def)

lemma sample_single:
  "uploadImage sample_oss Map.empty [0x00, 0x01] (ascii ''cat.png'') (ascii ''poetry'')
     = (Inr \<lparr> filename = ascii ''poetry/7_u1.jpg'', originalName = ascii ''cat.png'',
               size_f = 2, mimetype = ascii ''image/jpeg'',
               url = ascii ''https://cdn/poetry/7_u1.jpg'', uploadMethod = None \<rparr>,
        [ascii ''poetry/7_u1.jpg'' \<mapsto>
           \<lparr> data = [0x00, 0x01], content_type = Some (ascii ''image/jpeg''),
             meta_uploadMethod = None \<rparr>])"
  by (simp add: uploadImage_def sample_key Let_def) (simp add: sample_oss_def ascii_def)

lemma sample_chunked:
  "multipartUploadImage sample_oss Map.empty [0x00, 0x01] (ascii ''cat.png'') (ascii ''poetry'')
     = (Inl UploadFailed, Map.empty)"
  by (simp add: multipartUploadImage_def sample_oss_def)

lemma sample_chunked_jpeg:
  "multipartUploadImage (sample_oss\<lparr> sharp := \<lambda>x. Some [0xFF, 0xD8, 0xFF] \<rparr>) Map.empty
       [0x00, 0x01] (ascii ''cat.png'') (ascii ''poetry'')
     = (Inr \<lparr> filename = ascii ''poetry/7_u1.jpg'', originalName = ascii ''cat.png'',
               size_f = 3, mimetype = ascii ''image/jpeg'',
               url = ascii ''https://cdn/poetry/7_u1.jpg'',
               uploadMethod = Some (ascii ''multipart'') \<rparr>,
        [ascii ''poetry/7_u1.jpg'' \<mapsto>
           \<lparr> data = [0xFF, 0xD8, 0xFF], content_type = None,
             meta_uploadMethod = Some (ascii ''multipart'') \<rparr>])"
proof -
  have "object_key (sample_oss\<lparr> sharp := \<lambda>x. Some [0xFF, 0xD8, 0xFF] \<rparr>) (ascii ''poetry'')
          = ascii ''poetry/7_u1.jpg''"
    by (simp add: object_key_def sample_oss_def decimal.simps ascii_def)
  then show ?thesis
    by (simp add: multipartUploadImage_def Let_def) (simp add: sample_oss_def ascii_def)
qed

subsection \<open>The choice of the upload path\<close>

text \<open>
  C2: the route POST /api/images/upload and the upload step of the generation compare
  the size of the file with the threshold of 5 MiB (5242880 bytes). A file larger than the
  threshold goes through multipartUploadImage, the chunked path; a file of at most the
  threshold goes through uploadImage, the single-shot path.
\<close>

theorem upload_path_by_size:
  "threshold = 5242880 \<and>
   (threshold < file_size f \<longrightarrow>
      upload_route env b (Some f) =
        (case multipartUploadImage env b (buffer f) (originalname f) (ascii ''poetry'') of
           (Inr d, b') \<Rightarrow> (UploadOk d, b') | (Inl e, b') \<Rightarrow> (UploadServerError, b')) \<and>
      store_upload env b f =
        (case multipartUploadImage env b (buffer f) (originalname f) (ascii ''poetry'') of
           (Inr d, b') \<Rightarrow> (Some (url d), b') | (Inl e, b') \<Rightarrow> (None, b'))) \<and>
   (file_size f \<le> threshold \<longrightarrow>
      upload_route env b (Some f) =
        (case uploadImage env b (buffer f) (originalname f) (ascii ''poetry'') of
           (Inr d, b') \<Rightarrow> (UploadOk d, b') | (Inl e, b') \<Rightarrow> (UploadServerError, b')) \<and>
      store_upload env b f =
        (case uploadImage env b (buffer f) (originalname f) (ascii ''poetry'') of
           (Inr d, b') \<Rightarrow> (Some (url d), b') | (Inl e, b') \<Rightarrow> (None, b')))"
  by (simp add: upload_route_def store_upload_def threshold_def)

text \<open>
  The choice at the sizes threshold + 1, threshold and threshold - 1, for the sample
  file, whose bytes sharp rejects: the chunked path throws, the single-shot path stores
  the bytes.
\<close>

theorem upload_path_by_size_witness:
  "upload_route sample_oss Map.empty (Some (sample_file\<lparr> file_size := threshold + 1 \<rparr>))
     = (UploadServerError, Map.empty) \<and>
   store_upload sample_oss Map.empty (sample_file\<lparr> file_size := threshold + 1 \<rparr>)
     = (None, Map.empty) \<and>
   fst (upload_route sample_oss Map.empty (Some (sample_file\<lparr> file_size := threshold \<rparr>)))
     = UploadOk \<lparr> filename = ascii ''poetry/7_u1.jpg'', originalName = ascii ''cat.png'',
                   size_f = 2, mimetype = ascii ''image/jpeg'',
                   url = ascii ''https://cdn/poetry/7_u1.jpg'', uploadMethod = None \<rparr> \<and>
   fst (store_upload sample_oss Map.empty (sample_file\<lparr> file_size := threshold - 1 \<rparr>))
     = Some (ascii ''https://cdn/poetry/7_u1.jpg'')"
proof -
  have b: "buffer sample_file = [0x00, 0x01]" "originalname sample_file = ascii ''cat.png''"
    by (simp_all add: sample_file_def)
  show ?thesis
    using upload_path_by_size[of "sample_file\<lparr> file_size := threshold + 1 \<rparr>" sample_oss Map.empty]
          upload_path_by_size[of "sample_file\<lparr> file_size := threshold \<rparr>" sample_oss Map.empty]
          upload_path_by_size[of "sample_file\<lparr> file_size := threshold - 1 \<rparr>" sample_oss Map.empty]
    by (simp add: b sample_single sample_chunked)
qed

subsection \<open>A failed re-encoding\<close>

text \<open>
  C7 at a buffer that sharp rejects. The single-shot path stores the original bytes and
  succeeds. The chunked path stores nothing and throws, and the route
  POST /api/images/upload answers a file above the threshold with status 500.
\<close>

theorem multipart_reencoding_failure:
  "uploadImage (env\<lparr> sharp := \<lambda>x. None, put := \<lambda>k d. None \<rparr>) b buf n fo
     = (Inr \<lparr> filename = object_key env fo, originalName = n, size_f = length buf,
               mimetype = ascii ''image/jpeg'',
               url = baseUrl env @ ascii ''/'' @ object_key env fo, uploadMethod = None \<rparr>,
        b(object_key env fo \<mapsto>
            \<lparr> data = buf, content_type = Some (ascii ''image/jpeg''),
              meta_uploadMethod = None \<rparr>)) \<and>
   multipartUploadImage (env\<lparr> sharp := \<lambda>x. None \<rparr>) b buf n fo = (Inl UploadFailed, b) \<and>
   upload_route (env\<lparr> sharp := \<lambda>x. None \<rparr>) b (Some (f\<lparr> file_size := threshold + 1 \<rparr>))
     = (UploadServerError, b)"
  by (simp add: uploadImage_def multipartUploadImage_def upload_route_def object_key_def Let_def)

subsection \<open>The record of a stored image\<close>

text \<open>
  C10: when one of the two upload paths succeeds, the key of the object is
  \<open>folder/clock_uuid.jpg\<close>, built from the folder, the clock and the fresh identifier
  and not from the original name; the record gives the content type \<open>image/jpeg\<close>; the
  object is in the bucket under that key and the size of the record is the number of its
  bytes; and when the re-encoding failed these bytes are the original ones.
\<close>

theorem stored_image_record:
  assumes "uploadImage env b buf n fo = (Inr d, b') \<or>
           multipartUploadImage env b buf n fo = (Inr d, b')"
  shows "filename d = fo @ ascii ''/'' @ decimal (now env) @ ascii ''_'' @ uuid env @ ascii ''.jpg'' \<and>
         mimetype d = ascii ''image/jpeg'' \<and>
         (\<exists>ob. b' (filename d) = Some ob \<and> size_f d = length (data ob) \<and>
               (sharp env buf = None \<longrightarrow> data ob = buf))"
  using assms
  by (auto simp: uploadImage_def multipartUploadImage_def object_key_def Let_def
           split: option.splits if_splits)

text \<open>
  The record of the sample buffer, two bytes that are no image: on the single-shot path
  with a failed re-encoding, and on the chunked path with a re-encoding of three bytes.
\<close>

theorem stored_image_record_witness:
  "(\<exists>ob. [ascii ''poetry/7_u1.jpg'' \<mapsto>
            \<lparr> data = [0x00, 0x01 :: 8 word], content_type = Some (ascii ''image/jpeg''),
              meta_uploadMethod = None \<rparr>] (ascii ''poetry/7_u1.jpg'') = Some ob \<and>
         (2::nat) = length (data ob) \<and> data ob = [0x00, 0x01]) \<and>
   (\<exists>ob. [ascii ''poetry/7_u1.jpg'' \<mapsto>
            \<lparr> data = [0xFF, 0xD8, 0xFF :: 8 word], content_type = None,
              meta_uploadMethod = Some (ascii ''multipart'') \<rparr>] (ascii ''poetry/7_u1.jpg'') = Some ob \<and>
         (3::nat) = length (data ob)) \<and>
   ascii ''poetry/7_u1.jpg''
     = ascii ''poetry'' @ ascii ''/'' @ decimal (now sample_oss) @ ascii ''_'' @ uuid sample_oss @
       ascii ''.jpg''"
  using stored_image_record[OF disjI1[OF sample_single]]
        stored_image_record[OF disjI2[OF sample_chunked_jpeg]]
  by (simp add: sample_oss_def)

section \<open>Properties of the records\<close>

subsection \<open>The owner check of the deletion\<close>

text \<open>
  C8: for a record that exists, with a database that answers, the deletion removes the
  record and answers 200 when the record has no owner (\<open>null\<close>, or the empty string,
  which the test takes for none) and when the caller is the owner; it answers 403 and
  leaves the table as it is when the record has an owner and the caller is another user
  or gives no user.
\<close>

theorem delete_owner_check:
  assumes "t i = Some r" "\<not> select_fails env"
  shows "(\<not> truthy (user_id r) \<or> user_id r = caller \<longrightarrow> \<not> delete_fails env \<longrightarrow>
            deletePoetry env t i caller = (\<lparr> status = 200, body = DeletedBody \<rparr>, t(i := None))) \<and>
         (truthy (user_id r) \<and> user_id r \<noteq> caller \<longrightarrow>
            deletePoetry env t i caller = (\<lparr> status = 403, body = ErrorBody \<rparr>, t))"
  using assms by (auto simp: deletePoetry_def findById_def deleteById_def)

text \<open>The record of "alice": deleted by "alice", refused to "bob"; without an owner,
  deleted by "bob".\<close>

theorem delete_owner_check_witness:
  "deletePoetry sample_db sample_table (ascii ''p1'') (Some (ascii ''alice''))
     = (\<lparr> status = 200, body = DeletedBody \<rparr>, sample_table(ascii ''p1'' := None)) \<and>
   deletePoetry sample_db sample_table (ascii ''p1'') (Some (ascii ''bob''))
     = (\<lparr> status = 403, body = ErrorBody \<rparr>, sample_table) \<and>
   deletePoetry sample_db (sample_table(ascii ''p1'' \<mapsto> sample_row\<lparr> user_id := None \<rparr>))
       (ascii ''p1'') (Some (ascii ''bob''))
     = (\<lparr> status = 200, body = DeletedBody \<rparr>,
        (sample_table(ascii ''p1'' \<mapsto> sample_row\<lparr> user_id := None \<rparr>))(ascii ''p1'' := None))"
  using delete_owner_check[of sample_table "ascii ''p1''" sample_row sample_db "Some (ascii ''alice'')"]
        delete_owner_check[of sample_table "ascii ''p1''" sample_row sample_db "Some (ascii ''bob'')"]
        delete_owner_check[of "sample_table(ascii ''p1'' \<mapsto> sample_row\<lparr> user_id := None \<rparr>)"
          "ascii ''p1''" "sample_row\<lparr> user_id := None \<rparr>" sample_db "Some (ascii ''bob'')"]
  by (simp add: sample_table_def sample_row_def sample_db_def ascii_def)

subsection \<open>The share count\<close>




text \<open>At \<open>2^53\<close> the sum is rounded back: a count that has come so far stays there.\<close>

lemma js_add_one_stuck: "js_add_one (2 ^ 53) = 2 ^ 53"
  by (simp add: js_add_one_def)








text \<open>An uninterrupted request is the request in flight that makes its steps with no
  other step in between.\<close>

lemma handle_is_uninterrupted:
  "advance (Arrived rq) s = (th, s1) \<Longrightarrow>
   advance th s1 = (Finished (fst (handle rq s)), snd (handle rq s))"
  by (cases rq)
     (auto simp: updateFeedback_def sharePoetry_def split: prod.splits sum.splits if_splits)




section \<open>Properties of the generation\<close>


lemma create_fails:
  "insert_fails env \<or> new_id env \<in> dom t \<Longrightarrow> create env t pd = (Inl DbError, t)"
  by (auto simp: create_def Let_def)




subsection \<open>A failed inference\<close>








subsection \<open>A failed persistence\<close>

text \<open>
  C6: let the request carry an image, let the generation have a poem \<open>p\<close> (the parsed
  text of the model or a canned poem), and let the creation of the record fail. Then the
  response is 201 with the content, title and length of \<open>p\<close>, the id \<open>temp_\<close> followed
  by the reading of the clock, and the note that the data was not saved; the table is as
  it was.
\<close>

theorem persistence_failure_degrades:
  assumes img: "req_file req \<noteq> None \<or> truthy (imageUrl req) \<or> truthy (imageBuffer req)"
      and poem: "infer_or_mock env req (fst (ingest env s req))
                   (case req_style req of None \<Rightarrow> style_gufeng | Some x \<Rightarrow> x) = Poem p"
      and fails: "insert_fails (db env) \<or> new_id (db env) \<in> dom (poems s)"
  shows "generatePoetry env s req =
           (\<lparr> status = 201,
               body = GeneratedBody
                 \<lparr> g_id = ascii ''temp_'' @ decimal (tempTime env),
                   g_content = poetry p,
                   g_style = (case req_style req of None \<Rightarrow> style_gufeng | Some x \<Rightarrow> x),
                   g_title = title p,
                   g_length = length (poetry p),
                   g_description = imageDescription p,
                   g_processingTime = int (endTime env) - int (startTime env),
                   g_model = ascii ''doubao-pro'',
                   g_note = Some note_text \<rparr> \<rparr>,
            \<lparr> poems = poems s, objects = snd (ingest env s req) \<rparr>)"
proof -
  obtain furl b' where ing: "ingest env s req = (furl, b')" by (cases "ingest env s req")
  from img have "\<not> (req_file req = None \<and> \<not> truthy (imageUrl req) \<and> \<not> truthy (imageBuffer req))"
    by auto
  then show ?thesis
    using poem ing by (simp add: generatePoetry_def Let_def create_fails[OF fails])
qed

text \<open>The sample request with a database that rejects the insert: the id is
  \<open>temp_5\<close>.\<close>

theorem persistence_failure_degrades_witness:
  "generatePoetry sample_env sample_state sample_request
   = (\<lparr> status = 201,
         body = GeneratedBody
           \<lparr> g_id = ascii ''temp_5'', g_content = mock_content mock_gufeng,
             g_style = style_gufeng, g_title = Some (mock_title mock_gufeng), g_length = 4,
             g_description = mock_description, g_processingTime = 3,
             g_model = ascii ''doubao-pro'', g_note = Some note_text \<rparr> \<rparr>,
      sample_state)"
proof -
  have p: "infer_or_mock sample_env sample_request (fst (ingest sample_env sample_state sample_request))
             (case req_style sample_request of None \<Rightarrow> style_gufeng | Some x \<Rightarrow> x)
           = Poem \<lparr> poetry = mock_content mock_gufeng, imageDescription = mock_description,
                    analysis = default_analysis, title = Some (mock_title mock_gufeng) \<rparr>"
    by (simp add: ingest_def infer_or_mock_def image_input_def generatePoetryFromImage_def
          mockData_def mockPoetries_def sample_defs ascii_def)
  show ?thesis
    using persistence_failure_degrades[OF _ p]
    by (simp add: sample_defs ingest_def mock_gufeng_def decimal.simps ascii_def)
qed

end
